theory Spec2Isabelle
  imports Main
begin

section \<open>Python values, exceptions and subscripting\<close>

text \<open>
  The values that flow through the two strategies are loosely typed Python objects:
  \<open>None\<close>, strings, UUIDs and (JSON-like) dictionaries. A dictionary is an association list
  in insertion order, read with \<open>map_of\<close>.
\<close>

datatype pyval =
    VNone
  | VBool bool
  | VInt int
  | VStr string
  | VUuid string
  | VList "pyval list"
  | VDict "(string \<times> pyval) list"

text \<open>
  Exceptions are values. \<open>KeyError\<close> and \<open>TypeError\<close> are what the subscript
  \<open>obj[key]\<close> raises; \<open>ClientError\<close> stands for any fault raised inside a collaborator.
\<close>

datatype exn = KeyError string | TypeError | ClientError string

text \<open>
  \<open>obj[key]\<close> for a string key: a dictionary without the key raises \<open>KeyError\<close>, an object
  that is no dictionary raises \<open>TypeError\<close>.
\<close>

fun getitem :: "pyval \<Rightarrow> string \<Rightarrow> exn + pyval" where
  "getitem (VDict d) k = (case map_of d k of None \<Rightarrow> Inl (KeyError k) | Some v \<Rightarrow> Inr v)"
| "getitem _ k = Inl TypeError"

section \<open>The collaborators\<close>

text \<open>
  \<open>CoreApiClient\<close> and \<open>FranchiseApiClient\<close> are abstract classes: their methods are
  parameters of the model. A method reads and may change the outside world \<open>'w\<close>, and
  either raises or returns a value.
\<close>

record 'w CoreApiClient =
  get_user_core_info :: "pyval \<Rightarrow> 'w \<Rightarrow> (exn + pyval) \<times> 'w"
  verify_subscription :: "pyval \<Rightarrow> pyval \<Rightarrow> 'w \<Rightarrow> (exn + pyval) \<times> 'w"

record 'w FranchiseApiClient =
  get_user_subscription_info :: "pyval \<Rightarrow> 'w \<Rightarrow> (exn + pyval) \<times> 'w"

text \<open>Every method call on a collaborator is logged with its arguments, in order.\<close>

datatype call =
    Get_user_core_info pyval
  | Verify_subscription pyval pyval
  | Get_user_subscription_info pyval

record 'w state =
  calls :: "call list"
  world :: 'w

definition call_verify_subscription ::
  "'w CoreApiClient \<Rightarrow> pyval \<Rightarrow> pyval \<Rightarrow> 'w state \<Rightarrow> (exn + pyval) \<times> 'w state" where
  "call_verify_subscription c subscription_id metadata s =
     (case verify_subscription c subscription_id metadata (world s) of
        (r, w') \<Rightarrow> (r, \<lparr>calls = calls s @ [Verify_subscription subscription_id metadata],
                       world = w'\<rparr>))"

definition call_get_user_subscription_info ::
  "'w FranchiseApiClient \<Rightarrow> pyval \<Rightarrow> 'w state \<Rightarrow> (exn + pyval) \<times> 'w state" where
  "call_get_user_subscription_info c subscription_external_id s =
     (case get_user_subscription_info c subscription_external_id (world s) of
        (r, w') \<Rightarrow> (r, \<lparr>calls = calls s @ [Get_user_subscription_info subscription_external_id],
                       world = w'\<rparr>))"

section \<open>The two strategies\<close>

record 'w VerifySubscriptionFranchise1 =
  f1_core_api_client :: "'w CoreApiClient"

record 'w VerifySubscriptionFranchise2 =
  f2_core_api_client :: "'w CoreApiClient"
  f2_franchise_api_client :: "'w FranchiseApiClient"

text \<open>\<open>VerifySubscriptionFranchise1.verify\<close>: the direct strategy.\<close>

definition Franchise1_verify ::
  "'w VerifySubscriptionFranchise1 \<Rightarrow> pyval \<Rightarrow> pyval \<Rightarrow> pyval \<Rightarrow> 'w state
     \<Rightarrow> (exn + pyval) \<times> 'w state" where
  "Franchise1_verify self metadata subscription_id subscription_external_id s =
     call_verify_subscription (f1_core_api_client self) subscription_id metadata s"

text \<open>
  \<open>VerifySubscriptionFranchise2.verify\<close>: the resolving strategy. An exception of a
  collaborator or of a subscript ends the call and reaches the caller. The comparison
  \<open>!= "active"\<close> is structural: no value other than the string itself equals a string.
\<close>

definition Franchise2_verify ::
  "'w VerifySubscriptionFranchise2 \<Rightarrow> pyval \<Rightarrow> pyval \<Rightarrow> pyval \<Rightarrow> 'w state
     \<Rightarrow> (exn + pyval) \<times> 'w state" where
  "Franchise2_verify self metadata subscription_id subscription_external_id s =
     (case call_get_user_subscription_info (f2_franchise_api_client self)
             subscription_external_id s of
        (Inl e, s1) \<Rightarrow> (Inl e, s1)
      | (Inr user_subscription_info, s1) \<Rightarrow>
          if user_subscription_info = VNone then
            (Inr (VDict [(''status'', VStr ''error''),
                         (''message'', VStr ''User subscription not found'')]), s1)
          else (case getitem user_subscription_info ''status'' of
            Inl e \<Rightarrow> (Inl e, s1)
          | Inr status \<Rightarrow>
              if status \<noteq> VStr ''active'' then
                (Inr (VDict [(''status'', VStr ''error''),
                             (''message'', VStr ''User subscription is not active'')]), s1)
              else (case getitem user_subscription_info ''id'' of
                Inl e \<Rightarrow> (Inl e, s1)
              | Inr resolved_id \<Rightarrow>
                  if resolved_id = VNone then
                    (Inr (VDict [(''status'', VStr ''error''),
                                 (''message'', VStr ''Subscription id not found'')]), s1)
                  else call_verify_subscription (f2_core_api_client self)
                         resolved_id metadata s1)))"

text \<open>
  What one run of \<open>verify\<close> adds to the log, and which logged calls went to which
  collaborator.
\<close>

definition new_calls :: "'w state \<Rightarrow> 'w state \<Rightarrow> call list" where
  "new_calls s s' = drop (length (calls s)) (calls s')"


fun is_core_call :: "call \<Rightarrow> bool" where
  "is_core_call (Get_user_subscription_info _) = False"
| "is_core_call _ = True"

section \<open>Stub collaborators\<close>

text \<open>
  Stubs for concrete runs. The world is a counter of the requests served, so every call
  changes it. The franchise stub knows the external id \<open>ext-42\<close> only and answers with a
  fixed record; the core stub accepts every subscription.
\<close>

definition stub_core :: "nat CoreApiClient" where
  "stub_core =
     \<lparr>get_user_core_info = (\<lambda>user_id w. (Inr (VDict []), Suc w)),
      verify_subscription =
        (\<lambda>subscription_id metadata w. (Inr (VDict [(''status'', VStr ''ok'')]), Suc w))\<rparr>"

definition stub_franchise :: "pyval \<Rightarrow> nat FranchiseApiClient" where
  "stub_franchise info =
     \<lparr>get_user_subscription_info =
        (\<lambda>ext w. (Inr (if ext = VStr ''ext-42'' then info else VNone), Suc w))\<rparr>"

definition stub_franchise1 :: "nat VerifySubscriptionFranchise1" where
  "stub_franchise1 = \<lparr>f1_core_api_client = stub_core\<rparr>"

definition stub_franchise2 :: "pyval \<Rightarrow> nat VerifySubscriptionFranchise2" where
  "stub_franchise2 info =
     \<lparr>f2_core_api_client = stub_core, f2_franchise_api_client = stub_franchise info\<rparr>"

definition s0 :: "nat state" where
  "s0 = \<lparr>calls = [], world = 0\<rparr>"

definition gold :: pyval where
  "gold = VDict [(''plan'', VStr ''gold'')]"


section \<open>One lemma for each path of the resolving strategy\<close>

text \<open>
  Each lemma fixes what the franchise client answered, \<open>(r, w1)\<close>, and gives the whole
  outcome of \<open>verify\<close>: the result, the log and the world.
\<close>

lemmas verify_defs =
  Franchise2_verify_def call_get_user_subscription_info_def call_verify_subscription_def

lemma Franchise2_franchise_raises:
  assumes "get_user_subscription_info (f2_franchise_api_client self) ext (world s) = (Inl e, w1)"
  shows "Franchise2_verify self metadata sid ext s =
           (Inl e, \<lparr>calls = calls s @ [Get_user_subscription_info ext], world = w1\<rparr>)"
  using assms by (simp add: verify_defs)

lemma Franchise2_not_found:
  assumes "get_user_subscription_info (f2_franchise_api_client self) ext (world s) = (Inr VNone, w1)"
  shows "Franchise2_verify self metadata sid ext s =
           (Inr (VDict [(''status'', VStr ''error''),
                        (''message'', VStr ''User subscription not found'')]),
            \<lparr>calls = calls s @ [Get_user_subscription_info ext], world = w1\<rparr>)"
  using assms by (simp add: verify_defs)

lemma Franchise2_not_subscriptable:
  assumes "get_user_subscription_info (f2_franchise_api_client self) ext (world s) = (Inr info, w1)"
    and "info \<noteq> VNone" and "\<forall>d. info \<noteq> VDict d"
  shows "Franchise2_verify self metadata sid ext s =
           (Inl TypeError, \<lparr>calls = calls s @ [Get_user_subscription_info ext], world = w1\<rparr>)"
  using assms by (cases info) (simp_all add: verify_defs)

lemma Franchise2_status_missing:
  assumes "get_user_subscription_info (f2_franchise_api_client self) ext (world s) =
             (Inr (VDict d), w1)"
    and "map_of d ''status'' = None"
  shows "Franchise2_verify self metadata sid ext s =
           (Inl (KeyError ''status''),
            \<lparr>calls = calls s @ [Get_user_subscription_info ext], world = w1\<rparr>)"
  using assms by (simp add: verify_defs)

lemma Franchise2_not_active:
  assumes "get_user_subscription_info (f2_franchise_api_client self) ext (world s) =
             (Inr (VDict d), w1)"
    and "map_of d ''status'' = Some st" and "st \<noteq> VStr ''active''"
  shows "Franchise2_verify self metadata sid ext s =
           (Inr (VDict [(''status'', VStr ''error''),
                        (''message'', VStr ''User subscription is not active'')]),
            \<lparr>calls = calls s @ [Get_user_subscription_info ext], world = w1\<rparr>)"
  using assms by (simp add: verify_defs)

lemma Franchise2_id_missing:
  assumes "get_user_subscription_info (f2_franchise_api_client self) ext (world s) =
             (Inr (VDict d), w1)"
    and "map_of d ''status'' = Some (VStr ''active'')" and "map_of d ''id'' = None"
  shows "Franchise2_verify self metadata sid ext s =
           (Inl (KeyError ''id''),
            \<lparr>calls = calls s @ [Get_user_subscription_info ext], world = w1\<rparr>)"
  using assms by (simp add: verify_defs)

lemma Franchise2_id_null:
  assumes "get_user_subscription_info (f2_franchise_api_client self) ext (world s) =
             (Inr (VDict d), w1)"
    and "map_of d ''status'' = Some (VStr ''active'')" and "map_of d ''id'' = Some VNone"
  shows "Franchise2_verify self metadata sid ext s =
           (Inr (VDict [(''status'', VStr ''error''),
                        (''message'', VStr ''Subscription id not found'')]),
            \<lparr>calls = calls s @ [Get_user_subscription_info ext], world = w1\<rparr>)"
  using assms by (simp add: verify_defs)

lemma Franchise2_resolved:
  assumes "get_user_subscription_info (f2_franchise_api_client self) ext (world s) =
             (Inr (VDict d), w1)"
    and "map_of d ''status'' = Some (VStr ''active'')"
    and "map_of d ''id'' = Some X" and "X \<noteq> VNone"
  shows "Franchise2_verify self metadata sid ext s =
           (fst (verify_subscription (f2_core_api_client self) X metadata w1),
            \<lparr>calls = calls s @ [Get_user_subscription_info ext, Verify_subscription X metadata],
             world = snd (verify_subscription (f2_core_api_client self) X metadata w1)\<rparr>)"
  using assms by (simp add: verify_defs split: prod.split)

text \<open>
  The paths are exhaustive: the log grows by the franchise call alone, or by the franchise
  call and one core call, and the second happens for an active record with an id only.
\<close>

lemma Franchise2_new_calls:
  "new_calls s (snd (Franchise2_verify self metadata sid ext s)) =
     [Get_user_subscription_info ext]
   \<or> (\<exists>d w1 X. get_user_subscription_info (f2_franchise_api_client self) ext (world s) =
                  (Inr (VDict d), w1)
        \<and> map_of d ''status'' = Some (VStr ''active'')
        \<and> map_of d ''id'' = Some X \<and> X \<noteq> VNone
        \<and> new_calls s (snd (Franchise2_verify self metadata sid ext s)) =
            [Get_user_subscription_info ext, Verify_subscription X metadata])"
proof -
  obtain r w1 where r: "get_user_subscription_info (f2_franchise_api_client self) ext (world s) = (r, w1)"
    by (cases "get_user_subscription_info (f2_franchise_api_client self) ext (world s)")
  show ?thesis
  proof (cases r)
    case (Inl e)
    with r show ?thesis
      by (simp add: Franchise2_franchise_raises new_calls_def)
  next
    case (Inr info)
    note info = r [unfolded Inr]
    show ?thesis
    proof (cases "\<exists>d. info = VDict d")
      case False
      then show ?thesis
        using Franchise2_not_found [of self ext s w1 metadata sid]
          Franchise2_not_subscriptable [of self ext s info w1 metadata sid] info
        by (cases "info = VNone") (simp_all add: new_calls_def)
    next
      case True
      then obtain d where d: "info = VDict d" ..
      note rd = info [unfolded d]
      show ?thesis
      proof (cases "map_of d ''status''")
        case None
        with rd show ?thesis
          by (simp add: Franchise2_status_missing new_calls_def)
      next
        case (Some st)
        show ?thesis
        proof (cases "st = VStr ''active''")
          case False
          with rd Some show ?thesis
            by (simp add: Franchise2_not_active new_calls_def)
        next
          case True
          note active = Some [unfolded True]
          show ?thesis
          proof (cases "map_of d ''id''")
            case None
            with rd active show ?thesis
              by (simp add: Franchise2_id_missing new_calls_def)
          next
            case (Some X)
            show ?thesis
            proof (cases "X = VNone")
              case True
              with rd active Some show ?thesis
                by (simp add: Franchise2_id_null new_calls_def)
            next
              case False
              with rd active Some show ?thesis
                by (simp add: Franchise2_resolved new_calls_def)
            qed
          qed
        qed
      qed
    qed
  qed
qed

text \<open>The result alone, as a function of what the collaborators answer.\<close>

lemma Franchise2_result:
  "fst (Franchise2_verify self metadata sid ext s) =
     (case get_user_subscription_info (f2_franchise_api_client self) ext (world s) of
        (Inl e, w1) \<Rightarrow> Inl e
      | (Inr info, w1) \<Rightarrow>
          if info = VNone then
            Inr (VDict [(''status'', VStr ''error''),
                        (''message'', VStr ''User subscription not found'')])
          else (case getitem info ''status'' of
            Inl e \<Rightarrow> Inl e
          | Inr status \<Rightarrow>
              if status \<noteq> VStr ''active'' then
                Inr (VDict [(''status'', VStr ''error''),
                            (''message'', VStr ''User subscription is not active'')])
              else (case getitem info ''id'' of
                Inl e \<Rightarrow> Inl e
              | Inr resolved_id \<Rightarrow>
                  if resolved_id = VNone then
                    Inr (VDict [(''status'', VStr ''error''),
                                (''message'', VStr ''Subscription id not found'')])
                  else fst (verify_subscription (f2_core_api_client self)
                              resolved_id metadata w1))))"
  by (simp add: verify_defs split: prod.split sum.split)

lemmas stub_defs =
  stub_franchise2_def stub_franchise_def stub_core_def stub_franchise1_def s0_def

section \<open>The direct strategy\<close>

text \<open>
  C5. The direct strategy calls \<open>core_api_client.verify_subscription\<close> exactly once, with
  exactly \<open>(subscription_id, metadata)\<close>, and returns what that call returns (a value or
  an exception) unmodified: the log grows by that one call and the world is the one the
  core client left. Nothing is validated locally and no other call is made.
\<close>

theorem Franchise1_verify_delegates:
  "Franchise1_verify self metadata subscription_id subscription_external_id s =
     (fst (verify_subscription (f1_core_api_client self) subscription_id metadata (world s)),
      \<lparr>calls = calls s @ [Verify_subscription subscription_id metadata],
       world = snd (verify_subscription (f1_core_api_client self) subscription_id metadata
                      (world s))\<rparr>)"
  by (simp add: Franchise1_verify_def call_verify_subscription_def split: prod.split)

text \<open>
  C7. In the direct strategy \<open>subscription_external_id\<close> has no effect: two calls that
  agree on the metadata and the subscription id give the same result, the same log (the
  same single core-client call) and the same world, whatever the two external ids are.
\<close>

theorem Franchise1_verify_ignores_external_id:
  "Franchise1_verify self metadata subscription_id ext s =
   Franchise1_verify self metadata subscription_id ext' s"
  by (simp add: Franchise1_verify_def)

section \<open>The resolving strategy\<close>

text \<open>
  C1. When the franchise client answers with a record whose \<open>status\<close> is \<open>"active"\<close> and
  whose \<open>id\<close> is a value \<open>X\<close> other than \<open>None\<close>, \<open>verify\<close> calls the franchise client once
  and then \<open>core_api_client.verify_subscription\<close> once, with \<open>(X, metadata)\<close>, and returns
  that call's result unmodified. Conversely, whatever the franchise client answers, a
  core-client call in the log of a run means that the answer was such a record: the core
  client is called on the success path only.
\<close>

theorem Franchise2_verify_active_delegates:
  "(get_user_subscription_info (f2_franchise_api_client self) ext (world s) =
      (Inr (VDict d), w1)
    \<and> map_of d ''status'' = Some (VStr ''active'')
    \<and> map_of d ''id'' = Some X \<and> X \<noteq> VNone
    \<longrightarrow> Franchise2_verify self metadata sid ext s =
          (fst (verify_subscription (f2_core_api_client self) X metadata w1),
           \<lparr>calls = calls s @ [Get_user_subscription_info ext, Verify_subscription X metadata],
            world = snd (verify_subscription (f2_core_api_client self) X metadata w1)\<rparr>))
   \<and> (filter is_core_call (new_calls s (snd (Franchise2_verify self metadata sid ext s))) \<noteq> []
    \<longrightarrow> (\<exists>d' w' X'.
          get_user_subscription_info (f2_franchise_api_client self) ext (world s) =
            (Inr (VDict d'), w')
          \<and> map_of d' ''status'' = Some (VStr ''active'')
          \<and> map_of d' ''id'' = Some X' \<and> X' \<noteq> VNone))"
proof (intro conjI impI)
  assume "get_user_subscription_info (f2_franchise_api_client self) ext (world s) =
            (Inr (VDict d), w1)
          \<and> map_of d ''status'' = Some (VStr ''active'')
          \<and> map_of d ''id'' = Some X \<and> X \<noteq> VNone"
  then show "Franchise2_verify self metadata sid ext s =
          (fst (verify_subscription (f2_core_api_client self) X metadata w1),
           \<lparr>calls = calls s @ [Get_user_subscription_info ext, Verify_subscription X metadata],
            world = snd (verify_subscription (f2_core_api_client self) X metadata w1)\<rparr>)"
    by (simp add: Franchise2_resolved)
next
  assume core: "filter is_core_call
                  (new_calls s (snd (Franchise2_verify self metadata sid ext s))) \<noteq> []"
  from Franchise2_new_calls [of s self metadata sid ext]
  show "\<exists>d' w' X'.
          get_user_subscription_info (f2_franchise_api_client self) ext (world s) =
            (Inr (VDict d'), w')
          \<and> map_of d' ''status'' = Some (VStr ''active'')
          \<and> map_of d' ''id'' = Some X' \<and> X' \<noteq> VNone"
  proof
    assume "new_calls s (snd (Franchise2_verify self metadata sid ext s)) =
              [Get_user_subscription_info ext]"
    with core show ?thesis by simp
  next
    assume "\<exists>d w1 X. get_user_subscription_info (f2_franchise_api_client self) ext (world s) =
                  (Inr (VDict d), w1)
        \<and> map_of d ''status'' = Some (VStr ''active'')
        \<and> map_of d ''id'' = Some X \<and> X \<noteq> VNone
        \<and> new_calls s (snd (Franchise2_verify self metadata sid ext s)) =
            [Get_user_subscription_info ext, Verify_subscription X metadata]"
    then show ?thesis by blast
  qed
qed

text \<open>
  The scenario of the specification: external id \<open>ext-42\<close>, the franchise client answers
  \<open>{"status": "active", "id": "sub-7"}\<close>, the core client answers \<open>{"status": "ok"}\<close>.
\<close>

theorem Franchise2_verify_active_delegates_witness:
  "get_user_subscription_info
     (f2_franchise_api_client
        (stub_franchise2 (VDict [(''status'', VStr ''active''), (''id'', VStr ''sub-7'')])))
     (VStr ''ext-42'') (world s0) =
     (Inr (VDict [(''status'', VStr ''active''), (''id'', VStr ''sub-7'')]), 1)
   \<and> map_of [(''status'', VStr ''active''), (''id'', VStr ''sub-7'')] ''status'' =
       Some (VStr ''active'')
   \<and> map_of [(''status'', VStr ''active''), (''id'', VStr ''sub-7'')] ''id'' =
       Some (VStr ''sub-7'')
   \<and> VStr ''sub-7'' \<noteq> VNone
   \<and> Franchise2_verify
       (stub_franchise2 (VDict [(''status'', VStr ''active''), (''id'', VStr ''sub-7'')]))
       gold VNone (VStr ''ext-42'') s0 =
       (Inr (VDict [(''status'', VStr ''ok'')]),
        \<lparr>calls = [Get_user_subscription_info (VStr ''ext-42''),
                  Verify_subscription (VStr ''sub-7'') gold],
         world = 2\<rparr>)
   \<and> filter is_core_call
       (new_calls s0
          (snd (Franchise2_verify
                  (stub_franchise2
                     (VDict [(''status'', VStr ''active''), (''id'', VStr ''sub-7'')]))
                  gold VNone (VStr ''ext-42'') s0))) \<noteq> []"
  using Franchise2_verify_active_delegates
    [of "stub_franchise2 (VDict [(''status'', VStr ''active''), (''id'', VStr ''sub-7'')])"
        "VStr ''ext-42''" s0 "[(''status'', VStr ''active''), (''id'', VStr ''sub-7'')]" 1
        "VStr ''sub-7''" gold VNone]
  by (simp add: stub_defs new_calls_def)

text \<open>
  C3. When the franchise client answers \<open>None\<close> (no subscription info found), for every
  metadata, subscription id and external id, \<open>verify\<close> returns exactly
  \<open>{"status": "error", "message": "User subscription not found"}\<close>; the log grows by the
  franchise call alone, so the core client is never called.
\<close>

theorem Franchise2_verify_absent:
  "get_user_subscription_info (f2_franchise_api_client self) ext (world s) = (Inr VNone, w1)
   \<Longrightarrow> Franchise2_verify self metadata sid ext s =
         (Inr (VDict [(''status'', VStr ''error''),
                      (''message'', VStr ''User subscription not found'')]),
          \<lparr>calls = calls s @ [Get_user_subscription_info ext], world = w1\<rparr>)
       \<and> filter is_core_call
           (new_calls s (snd (Franchise2_verify self metadata sid ext s))) = []"
  by (simp add: Franchise2_not_found new_calls_def)

theorem Franchise2_verify_absent_witness:
  "get_user_subscription_info (f2_franchise_api_client (stub_franchise2 VNone))
     (VStr ''ext-9'') (world s0) = (Inr VNone, 1)
   \<and> Franchise2_verify (stub_franchise2 VNone) gold (VUuid ''sub-7'') (VStr ''ext-9'') s0 =
       (Inr (VDict [(''status'', VStr ''error''),
                    (''message'', VStr ''User subscription not found'')]),
        \<lparr>calls = [Get_user_subscription_info (VStr ''ext-9'')], world = 1\<rparr>)"
  using Franchise2_verify_absent
    [of "stub_franchise2 VNone" "VStr ''ext-9''" s0 1 gold "VUuid ''sub-7''"]
  by (simp add: stub_defs)

text \<open>
  C4. When the franchise client answers with a record whose \<open>status\<close> field holds any value
  other than the string \<open>"active"\<close> (another string such as \<open>"cancelled"\<close>, \<open>"expired"\<close> or
  \<open>""\<close>, or a value that is no string), \<open>verify\<close> returns exactly
  \<open>{"status": "error", "message": "User subscription is not active"}\<close> and never calls the
  core client.
\<close>

theorem Franchise2_verify_inactive:
  "get_user_subscription_info (f2_franchise_api_client self) ext (world s) =
     (Inr (VDict d), w1)
   \<Longrightarrow> map_of d ''status'' = Some st \<Longrightarrow> st \<noteq> VStr ''active''
   \<Longrightarrow> Franchise2_verify self metadata sid ext s =
         (Inr (VDict [(''status'', VStr ''error''),
                      (''message'', VStr ''User subscription is not active'')]),
          \<lparr>calls = calls s @ [Get_user_subscription_info ext], world = w1\<rparr>)
       \<and> filter is_core_call
           (new_calls s (snd (Franchise2_verify self metadata sid ext s))) = []"
  by (simp add: Franchise2_not_active new_calls_def)

theorem Franchise2_verify_inactive_witness:
  "get_user_subscription_info
     (f2_franchise_api_client
        (stub_franchise2 (VDict [(''status'', VStr ''cancelled''), (''id'', VStr ''sub-7'')])))
     (VStr ''ext-42'') (world s0) =
     (Inr (VDict [(''status'', VStr ''cancelled''), (''id'', VStr ''sub-7'')]), 1)
   \<and> map_of [(''status'', VStr ''cancelled''), (''id'', VStr ''sub-7'')] ''status'' =
       Some (VStr ''cancelled'')
   \<and> VStr ''cancelled'' \<noteq> VStr ''active''
   \<and> Franchise2_verify
       (stub_franchise2 (VDict [(''status'', VStr ''cancelled''), (''id'', VStr ''sub-7'')]))
       gold VNone (VStr ''ext-42'') s0 =
       (Inr (VDict [(''status'', VStr ''error''),
                    (''message'', VStr ''User subscription is not active'')]),
        \<lparr>calls = [Get_user_subscription_info (VStr ''ext-42'')], world = 1\<rparr>)"
  using Franchise2_verify_inactive
    [of "stub_franchise2 (VDict [(''status'', VStr ''cancelled''), (''id'', VStr ''sub-7'')])"
        "VStr ''ext-42''" s0 "[(''status'', VStr ''cancelled''), (''id'', VStr ''sub-7'')]" 1
        "VStr ''cancelled''" gold VNone]
  by (simp add: stub_defs)

text \<open>
  C2, as amended. For an active record whose \<open>id\<close> field is present and \<open>None\<close>, \<open>verify\<close>
  returns exactly \<open>{"status": "error", "message": "Subscription id not found"}\<close>. For an
  active record without the key \<open>id\<close>, the subscript \<open>user_subscription_info["id"]\<close> raises
  \<open>KeyError\<close>, which reaches the caller: the two cases are not treated identically. In
  both cases the core client is not called.
\<close>

theorem Franchise2_verify_null_id:
  "get_user_subscription_info (f2_franchise_api_client self) ext (world s) =
     (Inr (VDict d), w1)
   \<Longrightarrow> map_of d ''status'' = Some (VStr ''active'')
   \<Longrightarrow> (map_of d ''id'' = Some VNone \<longrightarrow>
          Franchise2_verify self metadata sid ext s =
            (Inr (VDict [(''status'', VStr ''error''),
                         (''message'', VStr ''Subscription id not found'')]),
             \<lparr>calls = calls s @ [Get_user_subscription_info ext], world = w1\<rparr>))
       \<and> (map_of d ''id'' = None \<longrightarrow>
          Franchise2_verify self metadata sid ext s =
            (Inl (KeyError ''id''),
             \<lparr>calls = calls s @ [Get_user_subscription_info ext], world = w1\<rparr>))
       \<and> (map_of d ''id'' = Some VNone \<or> map_of d ''id'' = None \<longrightarrow>
          filter is_core_call
            (new_calls s (snd (Franchise2_verify self metadata sid ext s))) = [])"
  by (auto simp add: Franchise2_id_null Franchise2_id_missing new_calls_def)

theorem Franchise2_verify_null_id_witness:
  "get_user_subscription_info
     (f2_franchise_api_client
        (stub_franchise2 (VDict [(''status'', VStr ''active''), (''id'', VNone)])))
     (VStr ''ext-42'') (world s0) =
     (Inr (VDict [(''status'', VStr ''active''), (''id'', VNone)]), 1)
   \<and> map_of [(''status'', VStr ''active''), (''id'', VNone)] ''status'' =
       Some (VStr ''active'')
   \<and> map_of [(''status'', VStr ''active''), (''id'', VNone)] ''id'' = Some VNone
   \<and> Franchise2_verify
       (stub_franchise2 (VDict [(''status'', VStr ''active''), (''id'', VNone)]))
       gold VNone (VStr ''ext-42'') s0 =
       (Inr (VDict [(''status'', VStr ''error''),
                    (''message'', VStr ''Subscription id not found'')]),
        \<lparr>calls = [Get_user_subscription_info (VStr ''ext-42'')], world = 1\<rparr>)
   \<and> get_user_subscription_info
       (f2_franchise_api_client (stub_franchise2 (VDict [(''status'', VStr ''active'')])))
       (VStr ''ext-42'') (world s0) = (Inr (VDict [(''status'', VStr ''active'')]), 1)
   \<and> map_of [(''status'', VStr ''active'')] ''status'' = Some (VStr ''active'')
   \<and> map_of [(''status'', VStr ''active'')] ''id'' = None
   \<and> Franchise2_verify (stub_franchise2 (VDict [(''status'', VStr ''active'')]))
       gold VNone (VStr ''ext-42'') s0 =
       (Inl (KeyError ''id''),
        \<lparr>calls = [Get_user_subscription_info (VStr ''ext-42'')], world = 1\<rparr>)"
  using Franchise2_verify_null_id
    [of "stub_franchise2 (VDict [(''status'', VStr ''active''), (''id'', VNone)])"
        "VStr ''ext-42''" s0 "[(''status'', VStr ''active''), (''id'', VNone)]" 1
        gold VNone]
    Franchise2_verify_null_id
    [of "stub_franchise2 (VDict [(''status'', VStr ''active'')])"
        "VStr ''ext-42''" s0 "[(''status'', VStr ''active'')]" 1 gold VNone]
  by (simp add: stub_defs)

text \<open>
  The first wording, an absent \<open>id\<close> treated like a null one, fails on the record
  \<open>{"status": "active"}\<close>: the run ends in \<open>KeyError('id')\<close>, which is neither the error
  dictionary nor what the run on \<open>{"status": "active", "id": None}\<close> returns.
\<close>

theorem Franchise2_verify_absent_id_counterexample:
  "get_user_subscription_info
     (f2_franchise_api_client (stub_franchise2 (VDict [(''status'', VStr ''active'')])))
     (VStr ''ext-42'') (world s0) = (Inr (VDict [(''status'', VStr ''active'')]), 1)
   \<and> map_of [(''status'', VStr ''active'')] ''status'' = Some (VStr ''active'')
   \<and> map_of [(''status'', VStr ''active'')] ''id'' = None
   \<and> fst (Franchise2_verify (stub_franchise2 (VDict [(''status'', VStr ''active'')]))
            gold VNone (VStr ''ext-42'') s0) = Inl (KeyError ''id'')
   \<and> fst (Franchise2_verify (stub_franchise2 (VDict [(''status'', VStr ''active'')]))
            gold VNone (VStr ''ext-42'') s0) \<noteq>
       Inr (VDict [(''status'', VStr ''error''),
                   (''message'', VStr ''Subscription id not found'')])
   \<and> fst (Franchise2_verify (stub_franchise2 (VDict [(''status'', VStr ''active'')]))
            gold VNone (VStr ''ext-42'') s0) \<noteq>
       fst (Franchise2_verify
              (stub_franchise2 (VDict [(''status'', VStr ''active''), (''id'', VNone)]))
              gold VNone (VStr ''ext-42'') s0)"
  by (simp add: verify_defs stub_defs)

text \<open>
  C9. The resolving strategy is partial on the keys of the franchise record: for a record
  without the key \<open>status\<close> the run ends in \<open>KeyError('status')\<close>, and for an active record
  without the key \<open>id\<close> it ends in \<open>KeyError('id')\<close>, instead of a structured error
  result. Both branches are reached by concrete records (see the runs that follow).
\<close>

theorem Franchise2_verify_key_errors:
  "get_user_subscription_info (f2_franchise_api_client self) ext (world s) =
     (Inr (VDict d), w1)
   \<Longrightarrow> (map_of d ''status'' = None \<longrightarrow>
          Franchise2_verify self metadata sid ext s =
            (Inl (KeyError ''status''),
             \<lparr>calls = calls s @ [Get_user_subscription_info ext], world = w1\<rparr>))
       \<and> (map_of d ''status'' = Some (VStr ''active'') \<and> map_of d ''id'' = None \<longrightarrow>
          Franchise2_verify self metadata sid ext s =
            (Inl (KeyError ''id''),
             \<lparr>calls = calls s @ [Get_user_subscription_info ext], world = w1\<rparr>))"
  by (simp add: Franchise2_status_missing Franchise2_id_missing)

theorem Franchise2_verify_key_errors_witness:
  "get_user_subscription_info
     (f2_franchise_api_client (stub_franchise2 (VDict [(''id'', VStr ''sub-7'')])))
     (VStr ''ext-42'') (world s0) = (Inr (VDict [(''id'', VStr ''sub-7'')]), 1)
   \<and> map_of [(''id'', VStr ''sub-7'')] ''status'' = None
   \<and> Franchise2_verify (stub_franchise2 (VDict [(''id'', VStr ''sub-7'')]))
       gold VNone (VStr ''ext-42'') s0 =
       (Inl (KeyError ''status''),
        \<lparr>calls = [Get_user_subscription_info (VStr ''ext-42'')], world = 1\<rparr>)
   \<and> get_user_subscription_info
       (f2_franchise_api_client
          (stub_franchise2 (VDict [(''status'', VStr ''active''), (''plan'', VStr ''gold'')])))
       (VStr ''ext-42'') (world s0) =
       (Inr (VDict [(''status'', VStr ''active''), (''plan'', VStr ''gold'')]), 1)
   \<and> map_of [(''status'', VStr ''active''), (''plan'', VStr ''gold'')] ''status'' =
       Some (VStr ''active'')
   \<and> map_of [(''status'', VStr ''active''), (''plan'', VStr ''gold'')] ''id'' = None
   \<and> Franchise2_verify
       (stub_franchise2 (VDict [(''status'', VStr ''active''), (''plan'', VStr ''gold'')]))
       gold VNone (VStr ''ext-42'') s0 =
       (Inl (KeyError ''id''),
        \<lparr>calls = [Get_user_subscription_info (VStr ''ext-42'')], world = 1\<rparr>)"
  using Franchise2_verify_key_errors
    [of "stub_franchise2 (VDict [(''id'', VStr ''sub-7'')])"
        "VStr ''ext-42''" s0 "[(''id'', VStr ''sub-7'')]" 1 gold VNone]
    Franchise2_verify_key_errors
    [of "stub_franchise2 (VDict [(''status'', VStr ''active''), (''plan'', VStr ''gold'')])"
        "VStr ''ext-42''" s0 "[(''status'', VStr ''active''), (''plan'', VStr ''gold'')]" 1
        gold VNone]
  by (simp add: stub_defs)

text \<open>
  C6, as amended. The three checks run in the order: the answer is not \<open>None\<close>, its
  \<open>status\<close> equals \<open>"active"\<close>, its \<open>id\<close> is not \<open>None\<close>; on every answer on which the checks
  can be evaluated, the first one that fails decides the error. An absent answer gives
  the not-found error. A record with a status other than \<open>"active"\<close> gives the not-active
  error whatever it holds under \<open>id\<close>: a value, \<open>None\<close>, or no such key at all (the id is
  never looked up). An active record with a null id gives the id error. The checks read
  the record with unguarded subscripts, so a record without the key \<open>status\<close>, and an
  active record without the key \<open>id\<close>, give no error result: the run ends in \<open>KeyError\<close>
  for the missing key, which reaches the caller.
\<close>

theorem Franchise2_verify_check_order:
  "get_user_subscription_info (f2_franchise_api_client self) ext (world s) = (Inr info, w1)
   \<Longrightarrow> (info = VNone \<longrightarrow>
          Franchise2_verify self metadata sid ext s =
            (Inr (VDict [(''status'', VStr ''error''),
                         (''message'', VStr ''User subscription not found'')]),
             \<lparr>calls = calls s @ [Get_user_subscription_info ext], world = w1\<rparr>))
       \<and> (info = VDict d \<and> map_of d ''status'' = Some st \<and> st \<noteq> VStr ''active'' \<longrightarrow>
          Franchise2_verify self metadata sid ext s =
            (Inr (VDict [(''status'', VStr ''error''),
                         (''message'', VStr ''User subscription is not active'')]),
             \<lparr>calls = calls s @ [Get_user_subscription_info ext], world = w1\<rparr>))
       \<and> (info = VDict d \<and> map_of d ''status'' = Some (VStr ''active'')
            \<and> map_of d ''id'' = Some VNone \<longrightarrow>
          Franchise2_verify self metadata sid ext s =
            (Inr (VDict [(''status'', VStr ''error''),
                         (''message'', VStr ''Subscription id not found'')]),
             \<lparr>calls = calls s @ [Get_user_subscription_info ext], world = w1\<rparr>))
       \<and> (info = VDict d \<and> map_of d ''status'' = None \<longrightarrow>
          Franchise2_verify self metadata sid ext s =
            (Inl (KeyError ''status''),
             \<lparr>calls = calls s @ [Get_user_subscription_info ext], world = w1\<rparr>))
       \<and> (info = VDict d \<and> map_of d ''status'' = Some (VStr ''active'')
            \<and> map_of d ''id'' = None \<longrightarrow>
          Franchise2_verify self metadata sid ext s =
            (Inl (KeyError ''id''),
             \<lparr>calls = calls s @ [Get_user_subscription_info ext], world = w1\<rparr>))"
  by (auto simp add: Franchise2_not_found Franchise2_not_active Franchise2_id_null
        Franchise2_status_missing Franchise2_id_missing)

theorem Franchise2_verify_check_order_witness:
  "get_user_subscription_info (f2_franchise_api_client (stub_franchise2 VNone))
     (VStr ''ext-42'') (world s0) = (Inr VNone, 1)
   \<and> Franchise2_verify (stub_franchise2 VNone) gold VNone (VStr ''ext-42'') s0 =
       (Inr (VDict [(''status'', VStr ''error''),
                    (''message'', VStr ''User subscription not found'')]),
        \<lparr>calls = [Get_user_subscription_info (VStr ''ext-42'')], world = 1\<rparr>)
   \<and> get_user_subscription_info
       (f2_franchise_api_client
          (stub_franchise2 (VDict [(''status'', VStr ''expired''), (''id'', VNone)])))
       (VStr ''ext-42'') (world s0) =
       (Inr (VDict [(''status'', VStr ''expired''), (''id'', VNone)]), 1)
   \<and> map_of [(''status'', VStr ''expired''), (''id'', VNone)] ''status'' =
       Some (VStr ''expired'')
   \<and> VStr ''expired'' \<noteq> VStr ''active''
   \<and> map_of [(''status'', VStr ''expired''), (''id'', VNone)] ''id'' = Some VNone
   \<and> Franchise2_verify
       (stub_franchise2 (VDict [(''status'', VStr ''expired''), (''id'', VNone)]))
       gold VNone (VStr ''ext-42'') s0 =
       (Inr (VDict [(''status'', VStr ''error''),
                    (''message'', VStr ''User subscription is not active'')]),
        \<lparr>calls = [Get_user_subscription_info (VStr ''ext-42'')], world = 1\<rparr>)
   \<and> get_user_subscription_info
       (f2_franchise_api_client
          (stub_franchise2 (VDict [(''id'', VNone), (''status'', VStr ''active'')])))
       (VStr ''ext-42'') (world s0) =
       (Inr (VDict [(''id'', VNone), (''status'', VStr ''active'')]), 1)
   \<and> map_of [(''id'', VNone), (''status'', VStr ''active'')] ''status'' =
       Some (VStr ''active'')
   \<and> map_of [(''id'', VNone), (''status'', VStr ''active'')] ''id'' = Some VNone
   \<and> Franchise2_verify
       (stub_franchise2 (VDict [(''id'', VNone), (''status'', VStr ''active'')]))
       gold VNone (VStr ''ext-42'') s0 =
       (Inr (VDict [(''status'', VStr ''error''),
                    (''message'', VStr ''Subscription id not found'')]),
        \<lparr>calls = [Get_user_subscription_info (VStr ''ext-42'')], world = 1\<rparr>)
   \<and> get_user_subscription_info
       (f2_franchise_api_client (stub_franchise2 (VDict [(''plan'', VStr ''gold'')])))
       (VStr ''ext-42'') (world s0) = (Inr (VDict [(''plan'', VStr ''gold'')]), 1)
   \<and> map_of [(''plan'', VStr ''gold'')] ''status'' = None
   \<and> Franchise2_verify (stub_franchise2 (VDict [(''plan'', VStr ''gold'')]))
       gold VNone (VStr ''ext-42'') s0 =
       (Inl (KeyError ''status''),
        \<lparr>calls = [Get_user_subscription_info (VStr ''ext-42'')], world = 1\<rparr>)
   \<and> get_user_subscription_info
       (f2_franchise_api_client
          (stub_franchise2 (VDict [(''status'', VStr ''active''), (''ID'', VStr ''sub-7'')])))
       (VStr ''ext-42'') (world s0) =
       (Inr (VDict [(''status'', VStr ''active''), (''ID'', VStr ''sub-7'')]), 1)
   \<and> map_of [(''status'', VStr ''active''), (''ID'', VStr ''sub-7'')] ''status'' =
       Some (VStr ''active'')
   \<and> map_of [(''status'', VStr ''active''), (''ID'', VStr ''sub-7'')] ''id'' = None
   \<and> Franchise2_verify
       (stub_franchise2 (VDict [(''status'', VStr ''active''), (''ID'', VStr ''sub-7'')]))
       gold VNone (VStr ''ext-42'') s0 =
       (Inl (KeyError ''id''),
        \<lparr>calls = [Get_user_subscription_info (VStr ''ext-42'')], world = 1\<rparr>)"
  using Franchise2_verify_check_order
    [where self = "stub_franchise2 VNone" and ext = "VStr ''ext-42''" and s = s0
       and info = VNone and ?w1.0 = 1 and metadata = gold and sid = VNone]
    Franchise2_verify_check_order
    [where self = "stub_franchise2 (VDict [(''status'', VStr ''expired''), (''id'', VNone)])"
       and ext = "VStr ''ext-42''" and s = s0
       and info = "VDict [(''status'', VStr ''expired''), (''id'', VNone)]" and ?w1.0 = 1
       and d = "[(''status'', VStr ''expired''), (''id'', VNone)]"
       and st = "VStr ''expired''" and metadata = gold and sid = VNone]
    Franchise2_verify_check_order
    [where self = "stub_franchise2 (VDict [(''id'', VNone), (''status'', VStr ''active'')])"
       and ext = "VStr ''ext-42''" and s = s0
       and info = "VDict [(''id'', VNone), (''status'', VStr ''active'')]" and ?w1.0 = 1
       and d = "[(''id'', VNone), (''status'', VStr ''active'')]"
       and metadata = gold and sid = VNone]
    Franchise2_verify_check_order
    [where self = "stub_franchise2 (VDict [(''plan'', VStr ''gold'')])"
       and ext = "VStr ''ext-42''" and s = s0
       and info = "VDict [(''plan'', VStr ''gold'')]" and ?w1.0 = 1
       and d = "[(''plan'', VStr ''gold'')]"
       and metadata = gold and sid = VNone]
    Franchise2_verify_check_order
    [where self = "stub_franchise2 (VDict [(''status'', VStr ''active''), (''ID'', VStr ''sub-7'')])"
       and ext = "VStr ''ext-42''" and s = s0
       and info = "VDict [(''status'', VStr ''active''), (''ID'', VStr ''sub-7'')]"
       and ?w1.0 = 1
       and d = "[(''status'', VStr ''active''), (''ID'', VStr ''sub-7'')]"
       and metadata = gold and sid = VNone]
  by (simp add: stub_defs)

text \<open>
  The first wording, the first failing check deciding the returned error on every input
  with \<open>id\<close> presence as the third check, fails on two records. On \<open>{"status": "active"}\<close>
  the answer exists and is active and the id is not present, yet the run returns no
  error dictionary: it ends in \<open>KeyError('id')\<close>. On \<open>{"id": None}\<close> the status is not
  \<open>"active"\<close>, yet the run ends in \<open>KeyError('status')\<close>.
\<close>

theorem Franchise2_verify_check_order_counterexample:
  "get_user_subscription_info
     (f2_franchise_api_client (stub_franchise2 (VDict [(''status'', VStr ''active'')])))
     (VStr ''ext-42'') (world s0) = (Inr (VDict [(''status'', VStr ''active'')]), 1)
   \<and> VDict [(''status'', VStr ''active'')] \<noteq> VNone
   \<and> getitem (VDict [(''status'', VStr ''active'')]) ''status'' = Inr (VStr ''active'')
   \<and> map_of [(''status'', VStr ''active'')] ''id'' = None
   \<and> Franchise2_verify (stub_franchise2 (VDict [(''status'', VStr ''active'')]))
       gold VNone (VStr ''ext-42'') s0 =
       (Inl (KeyError ''id''),
        \<lparr>calls = [Get_user_subscription_info (VStr ''ext-42'')], world = 1\<rparr>)
   \<and> fst (Franchise2_verify (stub_franchise2 (VDict [(''status'', VStr ''active'')]))
            gold VNone (VStr ''ext-42'') s0) \<noteq>
       Inr (VDict [(''status'', VStr ''error''),
                   (''message'', VStr ''Subscription id not found'')])
   \<and> get_user_subscription_info
       (f2_franchise_api_client (stub_franchise2 (VDict [(''id'', VNone)])))
       (VStr ''ext-42'') (world s0) = (Inr (VDict [(''id'', VNone)]), 1)
   \<and> map_of [(''id'', VNone)] ''status'' \<noteq> Some (VStr ''active'')
   \<and> Franchise2_verify (stub_franchise2 (VDict [(''id'', VNone)]))
       gold VNone (VStr ''ext-42'') s0 =
       (Inl (KeyError ''status''),
        \<lparr>calls = [Get_user_subscription_info (VStr ''ext-42'')], world = 1\<rparr>)
   \<and> fst (Franchise2_verify (stub_franchise2 (VDict [(''id'', VNone)]))
            gold VNone (VStr ''ext-42'') s0) \<noteq>
       Inr (VDict [(''status'', VStr ''error''),
                   (''message'', VStr ''User subscription is not active'')])"
  by (simp add: verify_defs stub_defs)



section \<open>Both strategies\<close>

text \<open>
  C8. With deterministic collaborators, that is, clients whose answer does not depend on
  the world they are called in, the result of \<open>verify\<close> in either strategy does not depend
  on the state it starts from: the same inputs give the same result from any two states,
  and in particular a second call made right after the first, in the state the first one
  left, returns what the first returned. No state of the strategy is carried from one
  call to the next.
\<close>

theorem verify_deterministic:
  assumes core1: "\<And>sid m w w'.
      fst (verify_subscription (f1_core_api_client self1) sid m w) =
      fst (verify_subscription (f1_core_api_client self1) sid m w')"
    and core2: "\<And>sid m w w'.
      fst (verify_subscription (f2_core_api_client self2) sid m w) =
      fst (verify_subscription (f2_core_api_client self2) sid m w')"
    and franchise2: "\<And>e w w'.
      fst (get_user_subscription_info (f2_franchise_api_client self2) e w) =
      fst (get_user_subscription_info (f2_franchise_api_client self2) e w')"
  shows "fst (Franchise1_verify self1 metadata sid ext s) =
           fst (Franchise1_verify self1 metadata sid ext s')
       \<and> fst (Franchise2_verify self2 metadata sid ext s) =
           fst (Franchise2_verify self2 metadata sid ext s')
       \<and> fst (Franchise1_verify self1 metadata sid ext
                (snd (Franchise1_verify self1 metadata sid ext s))) =
           fst (Franchise1_verify self1 metadata sid ext s)
       \<and> fst (Franchise2_verify self2 metadata sid ext
                (snd (Franchise2_verify self2 metadata sid ext s))) =
           fst (Franchise2_verify self2 metadata sid ext s)"
proof -
  have one: "fst (Franchise1_verify self1 metadata sid ext t) =
             fst (Franchise1_verify self1 metadata sid ext t')" for t t'
    using core1 [of sid metadata "world t" "world t'"]
    by (simp add: Franchise1_verify_def call_verify_subscription_def split_beta)
  have two: "fst (Franchise2_verify self2 metadata sid ext t) =
             fst (Franchise2_verify self2 metadata sid ext t')" for t t'
  proof -
    obtain r w1 where r: "get_user_subscription_info (f2_franchise_api_client self2) ext (world t) = (r, w1)"
      by (cases "get_user_subscription_info (f2_franchise_api_client self2) ext (world t)")
    obtain r' w1' where r': "get_user_subscription_info (f2_franchise_api_client self2) ext (world t') = (r', w1')"
      by (cases "get_user_subscription_info (f2_franchise_api_client self2) ext (world t')")
    from franchise2 [of ext "world t" "world t'"] r r' have same: "r' = r" by simp
    have core: "fst (verify_subscription (f2_core_api_client self2) x metadata w1) =
                fst (verify_subscription (f2_core_api_client self2) x metadata w1')" for x
      by (rule core2)
    show ?thesis
      by (simp add: Franchise2_result r r' same core split: sum.split)
  qed
  from one two show ?thesis by blast
qed

theorem verify_deterministic_witness:
  "(\<forall>sid m w w'.
      fst (verify_subscription (f1_core_api_client stub_franchise1) sid m w) =
      fst (verify_subscription (f1_core_api_client stub_franchise1) sid m w'))
   \<and> (\<forall>sid m w w'.
      fst (verify_subscription
             (f2_core_api_client (stub_franchise2 (VDict [(''status'', VStr ''expired'')])))
             sid m w) =
      fst (verify_subscription
             (f2_core_api_client (stub_franchise2 (VDict [(''status'', VStr ''expired'')])))
             sid m w'))
   \<and> (\<forall>e w w'.
      fst (get_user_subscription_info
             (f2_franchise_api_client
                (stub_franchise2 (VDict [(''status'', VStr ''expired'')]))) e w) =
      fst (get_user_subscription_info
             (f2_franchise_api_client
                (stub_franchise2 (VDict [(''status'', VStr ''expired'')]))) e w'))
   \<and> fst (Franchise1_verify stub_franchise1 gold (VUuid ''sub-7'') VNone s0) =
       fst (Franchise1_verify stub_franchise1 gold (VUuid ''sub-7'') VNone
              \<lparr>calls = [Get_user_core_info (VUuid ''u-1'')], world = 5\<rparr>)
   \<and> fst (Franchise2_verify (stub_franchise2 (VDict [(''status'', VStr ''expired'')]))
            gold VNone (VStr ''ext-42'')
            (snd (Franchise2_verify (stub_franchise2 (VDict [(''status'', VStr ''expired'')]))
                    gold VNone (VStr ''ext-42'') s0))) =
       fst (Franchise2_verify (stub_franchise2 (VDict [(''status'', VStr ''expired'')]))
              gold VNone (VStr ''ext-42'') s0)"
proof -
  have c1: "fst (verify_subscription (f1_core_api_client stub_franchise1) sid m w) =
            fst (verify_subscription (f1_core_api_client stub_franchise1) sid m w')"
    for sid m w w'
    by (simp add: stub_defs)
  have c2: "fst (verify_subscription
                   (f2_core_api_client (stub_franchise2 (VDict [(''status'', VStr ''expired'')])))
                   sid m w) =
            fst (verify_subscription
                   (f2_core_api_client (stub_franchise2 (VDict [(''status'', VStr ''expired'')])))
                   sid m w')"
    for sid m w w'
    by (simp add: stub_defs)
  have f2: "fst (get_user_subscription_info
                   (f2_franchise_api_client
                      (stub_franchise2 (VDict [(''status'', VStr ''expired'')]))) e w) =
            fst (get_user_subscription_info
                   (f2_franchise_api_client
                      (stub_franchise2 (VDict [(''status'', VStr ''expired'')]))) e w')"
    for e w w'
    by (simp add: stub_defs)
  from verify_deterministic
    [of stub_franchise1 "stub_franchise2 (VDict [(''status'', VStr ''expired'')])",
      OF c1 c2 f2, of gold "VUuid ''sub-7''" VNone s0
        "\<lparr>calls = [Get_user_core_info (VUuid ''u-1'')], world = 5\<rparr>"]
    verify_deterministic
    [of stub_franchise1 "stub_franchise2 (VDict [(''status'', VStr ''expired'')])",
      OF c1 c2 f2, of gold VNone "VStr ''ext-42''" s0]
    c1 c2 f2
  show ?thesis by blast
qed

end
